theory Spec2Isabelle
  imports Complex_Main "HOL-Library.Monad_Syntax" "HOL-Library.Multiset"
begin

section \<open>JavaScript numbers\<close>

text \<open>
  The services compute with JavaScript numbers. A finite number is modelled by the real it
  denotes; the three special values of IEEE arithmetic that the code can produce or compare
  with (\<open>Infinity\<close>, \<open>-Infinity\<close>, \<open>NaN\<close>) are constructors of their own. Arithmetic on
  finite numbers is exact: rounding, overflow, underflow and the sign of zero are outside
  the model. A zero divisor is taken as \<open>+0\<close>; the only divisors of this program are
  products of square roots.
\<close>

datatype jsnum = Num real | PInf | NInf | NaN








section \<open>Embedding vectors\<close>

subsection \<open>normalizeL2\<close>



subsection \<open>cosineSim\<close>




section \<open>Strings and arrays\<close>

text \<open>
  A string is the list of the bytes of its UTF-8 encoding. A lone surrogate, which a
  JavaScript string may hold and UTF-8 does not encode, is written with the three bytes
  \<open>ED A0..BF 80..BF\<close> that the encoding scheme gives to its code; no well-formed text has
  the byte \<open>ED\<close> followed by a byte from \<open>A0\<close> to \<open>BF\<close>. The program never joins two
  texts without a separator between them, so that the bytes of a joined text are the joined
  bytes. \<open>Array.prototype.slice\<close> and \<open>String.prototype.slice\<close> count a negative index
  from the end and clamp both indices to the length.
\<close>

fun well_formed :: "string \<Rightarrow> bool" where
  "well_formed [] = True"
| "well_formed [c] = True"
| "well_formed (c # d # cs) =
     (\<not> (of_char c = (0xED :: nat) \<and> (0xA0 :: nat) \<le> of_char d \<and> of_char d \<le> (0xBF :: nat))
      \<and> well_formed (d # cs))"

definition slice :: "int \<Rightarrow> int \<Rightarrow> 'a list \<Rightarrow> 'a list" where
  "slice b e xs =
     (let n = int (length xs);
          k = (if b < 0 then max (n + b) 0 else min b n);
          f = (if e < 0 then max (n + e) 0 else min e n)
      in take (nat (f - k)) (drop (nat k) xs))"

fun join :: "string \<Rightarrow> string list \<Rightarrow> string" where
  "join sep [] = []"
| "join sep [x] = x"
| "join sep (x # y # ys) = x @ sep @ join sep (y # ys)"

text \<open>
  \<open>encodeURIComponent\<close> keeps the unreserved characters \<open>A-Z a-z 0-9 - _ . ! ~ * ' ( )\<close>
  and writes every other byte of the UTF-8 encoding as \<open>%XX\<close> in upper-case hexadecimal.
  On a string that is not well formed it throws a \<open>URIError\<close>, with the message
  \<open>URI malformed\<close>: every call of it in the model is behind a test of \<open>well_formed\<close>.
\<close>

definition unreserved :: "char \<Rightarrow> bool" where
  "unreserved c \<longleftrightarrow>
     c \<in> set ''ABCDEFGHIJKLMNOPQRSTUVWXYZabcdefghijklmnopqrstuvwxyz0123456789-_.!~*()''
     \<or> c = CHR 0x27"

definition hexDigit :: "nat \<Rightarrow> char" where
  "hexDigit n = ''0123456789ABCDEF'' ! (n mod 16)"

definition encodeChar :: "char \<Rightarrow> string" where
  "encodeChar c =
     (if unreserved c then [c]
      else [CHR ''%'', hexDigit (of_char c div 16), hexDigit (of_char c mod 16)])"

definition encodeURIComponent :: "string \<Rightarrow> string" where
  "encodeURIComponent s = concat (map encodeChar s)"

text \<open>A value interpolated into a template literal: \<open>null\<close> prints as \<open>null\<close>.\<close>

definition tpl :: "string option \<Rightarrow> string" where
  "tpl v = (case v of None \<Rightarrow> ''null'' | Some s \<Rightarrow> s)"

text \<open>
  The truth value of a number read from a row: \<open>null\<close>, \<open>0\<close> and \<open>NaN\<close> are falsy.
\<close>

fun truthy :: "jsnum option \<Rightarrow> bool" where
  "truthy None = False"
| "truthy (Some (Num r)) = (r \<noteq> 0)"
| "truthy (Some NaN) = False"
| "truthy (Some x) = True"

section \<open>Requests, outcomes and the log of external calls\<close>

text \<open>
  A handler receives the framework's request object, whose \<open>data.prompt\<close> is a string or
  absent; \<open>queryLLM\<close> is also written for a direct string
  (\<open>// Handle both direct string and { prompt: string }\<close>). \<open>req.reject\<close> exists on the
  request object only: on a string the call is a \<open>TypeError\<close>.
\<close>

datatype request = DirectString string | Request "string option"

datatype query_val = QString string | QRequest request

datatype 'a outcome = Rejected nat string | Threw string | Returned 'a

definition reject :: "request \<Rightarrow> nat \<Rightarrow> string \<Rightarrow> 'a outcome" where
  "reject req code msg =
     (case req of
        DirectString s \<Rightarrow> Threw ''TypeError: req.reject is not a function''
      | Request p \<Rightarrow> Rejected code msg)"

datatype llm_input = Prompt string query_val | Retry string string

text \<open>
  Every call that leaves the process is logged, in the order in which it is issued. A
  geocoding request is named by the address it asks for, a routing request by the
  coordinates \<open>(lat, lon)\<close> it lists, a timer by its duration in milliseconds.
\<close>

datatype event =
    Embed string
  | VectorSearch query_val
  | Generate llm_input
  | Select
  | SelectMissing
  | SelectByIds "string list"
  | Update jsnum jsnum string
  | Geocode string
  | Route "(jsnum \<times> jsnum) list"
  | Sleep nat

section \<open>The address service: application-side ranking\<close>


record address =
  AddressID :: string
  EMBEDDING :: "string option"









section \<open>The routing service\<close>

subsection \<open>The output schema and its parser\<close>

text \<open>A parsed JSON value; an object is the list of its own properties.\<close>

datatype json =
    JNull
  | JBool bool
  | JNum jsnum
  | JStr string
  | JArr "json list"
  | JObj "(string \<times> json) list"

record relevantAddress =
  addressId :: string
  relevance :: real

record generation =
  answer :: string
  confidence :: real
  relevantAddresses :: "relevantAddress list"

text \<open>
  \<^verbatim>\<open>
  const outputSchema = z.object({
    answer: z.string(),
    confidence: z.number().min(0).max(1),
    relevantAddresses: z.array(
      z.object({
        addressId: z.string(),
        relevance: z.number().min(0).max(1),
      })
    ),
  });
  \<close>
  The invoice service declares the same schema under the keys \<open>relevantInvoices\<close> and
  \<open>invoiceId\<close>, so the two keys are parameters.
\<close>

text \<open>
  Modelled from the spec: the checks behind \<open>z.string\<close>, \<open>z.number\<close>, \<open>z.array\<close> and
  \<open>z.object\<close> belong to the schema library, which is not among the sources. The
  specification: "\<open>confidence\<close> and every \<open>relevance\<close> must lie in [0,1] inclusive;
  \<open>relevantItems\<close> must be an array of objects each carrying a string identifier". A
  declared property that is missing or of another type refuses the value. The declaration
  does not ask for a strict object, and the model does not read the properties that the
  declaration does not name.
\<close>

definition z_string :: "json \<Rightarrow> string option" where
  "z_string j = (case j of JStr s \<Rightarrow> Some s | _ \<Rightarrow> None)"

definition z_number_min0_max1 :: "json \<Rightarrow> real option" where
  "z_number_min0_max1 j =
     (case j of
        JNum n \<Rightarrow> (case n of Num r \<Rightarrow> if 0 \<le> r \<and> r \<le> 1 then Some r else None | _ \<Rightarrow> None)
      | _ \<Rightarrow> None)"

definition z_item :: "string \<Rightarrow> json \<Rightarrow> relevantAddress option" where
  "z_item idKey j =
     (case j of
        JObj props \<Rightarrow>
          do {
            i \<leftarrow> map_of props idKey;
            s \<leftarrow> z_string i;
            v \<leftarrow> map_of props ''relevance'';
            r \<leftarrow> z_number_min0_max1 v;
            Some \<lparr>addressId = s, relevance = r\<rparr>
          }
      | _ \<Rightarrow> None)"

definition z_array :: "(json \<Rightarrow> 'a option) \<Rightarrow> json \<Rightarrow> 'a list option" where
  "z_array element j = (case j of JArr xs \<Rightarrow> those (map element xs) | _ \<Rightarrow> None)"

definition z_output :: "string \<Rightarrow> string \<Rightarrow> json \<Rightarrow> generation option" where
  "z_output listKey idKey j =
     (case j of
        JObj props \<Rightarrow>
          do {
            a \<leftarrow> map_of props ''answer'';
            s \<leftarrow> z_string a;
            c \<leftarrow> map_of props ''confidence'';
            r \<leftarrow> z_number_min0_max1 c;
            l \<leftarrow> map_of props listKey;
            items \<leftarrow> z_array (z_item idKey) l;
            Some \<lparr>answer = s, confidence = r, relevantAddresses = items\<rparr>
          }
      | _ \<Rightarrow> None)"

definition outputSchema :: "json \<Rightarrow> generation option" where
  "outputSchema = z_output ''relevantAddresses'' ''addressId''"

definition invoiceSchema :: "json \<Rightarrow> generation option" where
  "invoiceSchema = z_output ''relevantInvoices'' ''invoiceId''"

subsection \<open>Collaborators\<close>

text \<open>
  A row of the table of clients. The identifier is given by the text of \<open>ID.toString()\<close>,
  which is how the program compares it.
\<close>

record client =
  ID :: string
  CompanyName :: "string option"
  Address :: "string option"
  PostalCode :: "string option"
  City :: "string option"
  Country :: "string option"
  Latitude :: "jsnum option"
  Longitude :: "jsnum option"

text \<open>
  The geocoding service answers the request for
  \<open>https://nominatim.openstreetmap.org/search?q=${encodeURIComponent(address)}&format=json&limit=1\<close>
  with the list of its matches, each read by \<open>parseFloat\<close> as \<open>(lat, lon)\<close>, or the
  request or the reading of its body fails. The routing engine answers the request for
  \<open>http://router.project-osrm.org/route/v1/driving/lon,lat;...\<close> with a body whose
  \<open>routes\<close> is absent or a list of routes, each with or without a geometry, or fails.
\<close>

datatype geo_reply = GeoFailed | GeoData "(jsnum \<times> jsnum) list"

text \<open>A route geometry is a GeoJSON object, given by its text.\<close>

datatype geometry = GeoJSON string

datatype route_reply = RouteFailed | RouteData "geometry option list option"

record env =
  vectorSearch :: "query_val \<Rightarrow> string + (string \<times> string option) list list"
  chatModel :: "llm_input \<Rightarrow> string + string"
  decode :: "string \<Rightarrow> json option"
  selectMissing :: "string + client list"
  selectByIds :: "string list \<Rightarrow> string + client list"
  dbUpdate :: "jsnum \<Rightarrow> jsnum \<Rightarrow> string \<Rightarrow> string + unit"
  nominatim :: "string \<Rightarrow> geo_reply"
  osrm :: "(jsnum \<times> jsnum) list \<Rightarrow> route_reply"

text \<open>
  \<open>StructuredOutputParser.fromZodSchema(outputSchema)\<close>: the completion is decoded as JSON
  and checked against the schema; a completion that fails either step is refused with a
  parse error that quotes it.
\<close>

definition parser :: "env \<Rightarrow> string \<Rightarrow> string + generation" where
  "parser env completion =
     (case decode env completion of
        None \<Rightarrow> Inl (''Failed to parse. Text: '' @ completion)
      | Some j \<Rightarrow>
          (case outputSchema j of
             None \<Rightarrow> Inl (''Failed to parse. Text: '' @ completion)
           | Some r \<Rightarrow> Inr r))"

text \<open>
  Modelled from the spec: \<open>OutputFixingParser.fromLLM(getChatModel(), parser)\<close> belongs to
  the generation library, which is not among the sources. The specification: "If
  parsing/validation fails, a single bounded repair attempt is made: the invalid output and
  the validation error are fed back to the model with an instruction to correct the
  structure; if the repaired output still fails validation, the call fails with a
  GenerationError - no further retries."
\<close>

definition parserWithFix :: "env \<Rightarrow> string \<Rightarrow> (string + generation) \<times> event list" where
  "parserWithFix env completion =
     (case parser env completion of
        Inr r \<Rightarrow> (Inr r, [])
      | Inl err \<Rightarrow>
          (case chatModel env (Retry completion err) of
             Inl msg \<Rightarrow> (Inl msg, [Generate (Retry completion err)])
           | Inr repaired \<Rightarrow> (parser env repaired, [Generate (Retry completion err)])))"

text \<open>
  \<open>llmChain = promptTemplate.pipe(getChatModel()).pipe(parserWithFix)\<close>, invoked with the
  context and the query: one call of the model with the rendered template, then the parser.
\<close>

definition llmChain :: "env \<Rightarrow> string \<Rightarrow> query_val \<Rightarrow> (string + generation) \<times> event list" where
  "llmChain env context query =
     (case chatModel env (Prompt context query) of
        Inl msg \<Rightarrow> (Inl msg, [Generate (Prompt context query)])
      | Inr completion \<Rightarrow>
          (case parserWithFix env completion of
             (r, evs) \<Rightarrow> (r, Generate (Prompt context query) # evs)))"

subsection \<open>geocodeAddress and getRouteGeometry\<close>

text \<open>
  \<^verbatim>\<open>
  async geocodeAddress(address) {
    const query = encodeURIComponent(address);
    const url = `https://nominatim.openstreetmap.org/search?q=${query}&format=json&limit=1`;
    try {
      const response = await fetch(url, { headers: { 'User-Agent': 'MyCAPApp/1.0' } });
      const data = await response.json();
      if (data.length > 0) {
        return { lat: parseFloat(data[0].lat), lon: parseFloat(data[0].lon) };
      }
      return null;
    } catch (err) {
      console.error('Geocoding error for address', address, ':', err);
      return null;
    }
  }
  \<close>
\<close>

text \<open>
  The call of \<open>encodeURIComponent\<close> stands before the \<open>try\<close> block: its error leaves the
  function, while every error of the request or of the reading of the reply is caught.
\<close>

definition geocodeAddress ::
  "env \<Rightarrow> string \<Rightarrow> (string + (jsnum \<times> jsnum) option) \<times> event list" where
  "geocodeAddress env address =
     (if \<not> well_formed address then (Inl ''URI malformed'', [])
      else
        (case nominatim env address of
           GeoFailed \<Rightarrow> (Inr None, [Geocode address])
         | GeoData data \<Rightarrow>
             (case data of
                [] \<Rightarrow> (Inr None, [Geocode address])
              | m # _ \<Rightarrow> (Inr (Some m), [Geocode address]))))"

text \<open>
  \<^verbatim>\<open>
  async getRouteGeometry(coordinates) {
    if (coordinates.length < 2) return null;
    const coordsStr = coordinates.map(c => `${c.lon},${c.lat}`).join(';');
    const url = `http://router.project-osrm.org/route/v1/driving/${coordsStr}?overview=full&geometries=geojson`;
    try {
      const response = await fetch(url);
      const data = await response.json();
      if (data.routes && data.routes.length > 0) {
        return data.routes[0].geometry;
      }
      return null;
    } catch (err) {
      console.error('OSRM route error:', err);
      return null;
    }
  }
  \<close>
\<close>

definition getRouteGeometry :: "env \<Rightarrow> (jsnum \<times> jsnum) list \<Rightarrow> geometry option \<times> event list" where
  "getRouteGeometry env coordinates =
     (if length coordinates < 2 then (None, [])
      else
        (case osrm env coordinates of
           RouteFailed \<Rightarrow> (None, [Route coordinates])
         | RouteData routes \<Rightarrow>
             (case routes of
                None \<Rightarrow> (None, [Route coordinates])
              | Some [] \<Rightarrow> (None, [Route coordinates])
              | Some (r # _) \<Rightarrow> (r, [Route coordinates]))))"

subsection \<open>populateCoordinates\<close>

definition fullAddress :: "client \<Rightarrow> string" where
  "fullAddress c =
     tpl (Address c) @ '', '' @ tpl (PostalCode c) @ '' '' @ tpl (City c) @ '', '' @ tpl (Country c)"

record updated_entry =
  upd_id :: string
  upd_address :: string
  upd_lat :: jsnum
  upd_lon :: jsnum

record failed_entry =
  fail_id :: string
  fail_address :: string

text \<open>
  \<^verbatim>\<open>
  const results = { updated: [], failed: [] };
  for (const client of clients) {
    const fullAddress = `${client.Address}, ${client.PostalCode} ${client.City}, ${client.Country}`;
    const coords = await this.geocodeAddress(fullAddress);
    if (coords) {
      await this.db.run('UPDATE ... SET Latitude = ?, Longitude = ? WHERE ID = ?',
        [coords.lat, coords.lon, client.ID]);
      results.updated.push({ id: client.ID, address: fullAddress, lat: coords.lat, lon: coords.lon });
    } else {
      results.failed.push({ id: client.ID, address: fullAddress });
    }
    // Delay to respect Nominatim rate limit (1 second)
    await new Promise(resolve => setTimeout(resolve, 1000));
  }
  \<close>
  The loop, with the two lists and the log of calls as its state; it ends early when
  \<open>geocodeAddress\<close> or the update throws.
\<close>

fun geocodeClients ::
  "env \<Rightarrow> client list \<Rightarrow> updated_entry list \<times> failed_entry list \<Rightarrow> event list
     \<Rightarrow> (string + updated_entry list \<times> failed_entry list) \<times> event list" where
  "geocodeClients env [] results trace = (Inr results, trace)"
| "geocodeClients env (c # clients) (updated, failed) trace =
     (case geocodeAddress env (fullAddress c) of
        (Inl msg, evs) \<Rightarrow> (Inl msg, trace @ evs)
      | (Inr coords, evs) \<Rightarrow>
          (case coords of
             Some (lat, lon) \<Rightarrow>
               (case dbUpdate env lat lon (ID c) of
                  Inl msg \<Rightarrow> (Inl msg, trace @ evs @ [Update lat lon (ID c)])
                | Inr _ \<Rightarrow>
                    geocodeClients env clients
                      (updated @ [\<lparr>upd_id = ID c, upd_address = fullAddress c, upd_lat = lat, upd_lon = lon\<rparr>],
                       failed)
                      (trace @ evs @ [Update lat lon (ID c), Sleep 1000]))
           | None \<Rightarrow>
               geocodeClients env clients
                 (updated, failed @ [\<lparr>fail_id = ID c, fail_address = fullAddress c\<rparr>])
                 (trace @ evs @ [Sleep 1000])))"

text \<open>
  \<^verbatim>\<open>
  async populateCoordinates(req) {
    try {
      const clients = await this.db.run('SELECT ID, Address, PostalCode, City, Country FROM ... WHERE Latitude IS NULL OR Longitude IS NULL');
      if (clients.length === 0) {
        return { message: 'All clients already have coordinates or no clients found.' };
      }
      ... the loop ...
      return { message: `Processed ${clients.length} clients.`, updated: results.updated, failed: results.failed };
    } catch (err) {
      return req.reject(500, `Failed to populate coordinates: ${err.message}`);
    }
  }
  \<close>
  The message is given by its kind and the number it prints.
\<close>

datatype populate_message = AllHaveCoordinates | Processed nat

record populate_result =
  message :: populate_message
  updated :: "updated_entry list option"
  failed :: "failed_entry list option"

definition populateCoordinates :: "env \<Rightarrow> request \<Rightarrow> populate_result outcome \<times> event list" where
  "populateCoordinates env req =
     (case selectMissing env of
        Inl msg \<Rightarrow> (reject req 500 (''Failed to populate coordinates: '' @ msg), [SelectMissing])
      | Inr clients \<Rightarrow>
          if length clients = 0
          then (Returned \<lparr>message = AllHaveCoordinates, updated = None, failed = None\<rparr>, [SelectMissing])
          else
            (case geocodeClients env clients ([], []) [SelectMissing] of
               (Inl msg, trace) \<Rightarrow> (reject req 500 (''Failed to populate coordinates: '' @ msg), trace)
             | (Inr (upd, fl), trace) \<Rightarrow>
                 (Returned \<lparr>message = Processed (length clients), updated = Some upd, failed = Some fl\<rparr>,
                  trace)))"

text \<open>
  What the specification expects of a batch: the entry of every client that the geocoding
  service finds, and the entry of every client that it does not find.
\<close>

definition updated_entries :: "env \<Rightarrow> client list \<Rightarrow> updated_entry list" where
  "updated_entries env clients =
     List.map_filter
       (\<lambda>c. case fst (geocodeAddress env (fullAddress c)) of
              Inr (Some (lat, lon)) \<Rightarrow>
                Some \<lparr>upd_id = ID c, upd_address = fullAddress c, upd_lat = lat, upd_lon = lon\<rparr>
            | _ \<Rightarrow> None)
       clients"

definition failed_entries :: "env \<Rightarrow> client list \<Rightarrow> failed_entry list" where
  "failed_entries env clients =
     List.map_filter
       (\<lambda>c. case fst (geocodeAddress env (fullAddress c)) of
              Inr None \<Rightarrow> Some \<lparr>fail_id = ID c, fail_address = fullAddress c\<rparr>
            | _ \<Rightarrow> None)
       clients"

text \<open>
  The delay that the program enforces between each geocoding call of a log and the next
  one: the sum of the timers awaited in between.
\<close>

fun gaps_after :: "nat \<Rightarrow> event list \<Rightarrow> nat list" where
  "gaps_after waited [] = []"
| "gaps_after waited (Geocode a # evs) = waited # gaps_after 0 evs"
| "gaps_after waited (Sleep ms # evs) = gaps_after (waited + ms) evs"
| "gaps_after waited (e # evs) = gaps_after waited evs"

fun geocode_gaps :: "event list \<Rightarrow> nat list" where
  "geocode_gaps [] = []"
| "geocode_gaps (Geocode a # evs) = gaps_after 0 evs"
| "geocode_gaps (e # evs) = geocode_gaps evs"

fun is_geocode :: "event \<Rightarrow> bool" where
  "is_geocode (Geocode a) = True"
| "is_geocode e = False"

subsection \<open>queryLLM\<close>

text \<open>
  \<^verbatim>\<open>
  const query = req.data?.prompt || req;
  if (!query) return req.reject(400, 'query is required');
  \<close>
  An absent or empty \<open>prompt\<close> is falsy, so \<open>query\<close> is then \<open>req\<close> itself; a request
  object is truthy, a string is truthy unless it is empty.
\<close>

definition queryOf :: "request \<Rightarrow> query_val" where
  "queryOf req =
     (case req of
        DirectString s \<Rightarrow> QString s
      | Request p \<Rightarrow>
          (case p of
             None \<Rightarrow> QRequest req
           | Some prompt \<Rightarrow> if prompt = [] then QRequest req else QString prompt))"

fun falsy :: "query_val \<Rightarrow> bool" where
  "falsy (QString s) = (s = [])"
| "falsy (QRequest r) = False"

text \<open>
  \<^verbatim>\<open>
  const context = contextRecords
    .map(record => {
      const columns = Object.keys(record);
      const formattedFields = columns
        .map(col => {
          const value = record[col] !== null && record[col] !== undefined ? record[col] : 'N/A';
          return `${col}: ${value}`;
        })
        .join(', ');
      return `Address Record: {${formattedFields}}`;
    })
    .join('\n');
  \<close>
  A record is the list of its columns, each with the text of its value or \<open>null\<close>.
\<close>

definition formatRecord :: "(string \<times> string option) list \<Rightarrow> string" where
  "formatRecord record =
     ''Address Record: {''
     @ join '', '' (map (\<lambda>(col, v). col @ '': '' @ (case v of None \<Rightarrow> ''N/A'' | Some x \<Rightarrow> x)) record)
     @ ''}''"

definition formatContext :: "(string \<times> string option) list list \<Rightarrow> string" where
  "formatContext contextRecords = join [CHR 0x0A] (map formatRecord contextRecords)"

text \<open>
  \<^verbatim>\<open>
  const orderedAddresses = await Promise.all(response.relevantAddresses.map(async relAddr => {
    const addr = addresses.find(a => a.ID.toString() === relAddr.addressId);
    if (!addr) return null;
    let lat = addr.Latitude;
    let lon = addr.Longitude;
    if (!lat || !lon) {
      const fullAddress = `${addr.Address}, ${addr.PostalCode} ${addr.City}, ${addr.Country}`;
      const coords = await this.geocodeAddress(fullAddress);
      if (coords) {
        await this.db.run('UPDATE ... SET Latitude = ?, Longitude = ? WHERE ID = ?',
          [coords.lat, coords.lon, addr.ID]);
        lat = coords.lat;
        lon = coords.lon;
      }
    }
    return { id: addr.ID, companyName: addr.CompanyName,
             address: `${addr.Address}, ${addr.PostalCode} ${addr.City}, ${addr.Country}`, lat, lon };
  }));
  \<close>
  One call of the callback gives its result, the geocoding request it issues and the update
  it issues once the reply is there.
\<close>

record ordered_address =
  oa_id :: string
  oa_companyName :: "string option"
  oa_address :: string
  oa_lat :: "jsnum option"
  oa_lon :: "jsnum option"

definition resolveAddress ::
  "env \<Rightarrow> client list \<Rightarrow> relevantAddress
     \<Rightarrow> (string + ordered_address option) \<times> event list \<times> event list" where
  "resolveAddress env addresses relAddr =
     (case find (\<lambda>a. ID a = addressId relAddr) addresses of
        None \<Rightarrow> (Inr None, [], [])
      | Some addr \<Rightarrow>
          if \<not> truthy (Latitude addr) \<or> \<not> truthy (Longitude addr)
          then
            (case geocodeAddress env (fullAddress addr) of
               (Inl msg, evs) \<Rightarrow> (Inl msg, evs, [])
             | (Inr coords, evs) \<Rightarrow>
                 (case coords of
                    Some (lat, lon) \<Rightarrow>
                      (case dbUpdate env lat lon (ID addr) of
                         Inl msg \<Rightarrow> (Inl msg, evs, [Update lat lon (ID addr)])
                       | Inr _ \<Rightarrow>
                           (Inr (Some \<lparr>oa_id = ID addr, oa_companyName = CompanyName addr,
                                       oa_address = fullAddress addr,
                                       oa_lat = Some lat, oa_lon = Some lon\<rparr>),
                            evs, [Update lat lon (ID addr)]))
                  | None \<Rightarrow>
                      (Inr (Some \<lparr>oa_id = ID addr, oa_companyName = CompanyName addr,
                                  oa_address = fullAddress addr,
                                  oa_lat = Latitude addr, oa_lon = Longitude addr\<rparr>),
                       evs, [])))
          else
            (Inr (Some \<lparr>oa_id = ID addr, oa_companyName = CompanyName addr,
                        oa_address = fullAddress addr,
                        oa_lat = Latitude addr, oa_lon = Longitude addr\<rparr>),
             [], []))"

text \<open>
  \<open>Promise.all\<close> over the mapped callbacks. \<open>map\<close> calls every callback in turn, and each
  runs up to its first suspension, which is the \<open>fetch\<close> inside \<open>geocodeAddress\<close>: all the
  geocoding requests are issued, in the order of the list, before any reply is awaited.
  The updates follow as the replies arrive; the log lists them in the order of the list.
  The result is the list of the results, or the error of a callback that threw (of the
  first in the list, when there are several).
\<close>

fun collect :: "(string + 'a) list \<Rightarrow> string + 'a list" where
  "collect [] = Inr []"
| "collect (Inl err # rs) = Inl err"
| "collect (Inr v # rs) = (case collect rs of Inl err \<Rightarrow> Inl err | Inr vs \<Rightarrow> Inr (v # vs))"

definition Promise_all ::
  "((string + 'a) \<times> event list \<times> event list) list \<Rightarrow> (string + 'a list) \<times> event list" where
  "Promise_all calls =
     (collect (map fst calls),
      concat (map (\<lambda>c. fst (snd c)) calls) @ concat (map (\<lambda>c. snd (snd c)) calls))"

text \<open>
  \<^verbatim>\<open>
  const validAddresses = orderedAddresses.filter(addr => addr !== null && addr.lat && addr.lon);
  \<close>
  A valid address has both coordinates, which the response lists as \<open>[lat, lon]\<close>.
\<close>

record waypoint =
  wp_id :: string
  wp_companyName :: "string option"
  wp_address :: string
  wp_lat :: jsnum
  wp_lon :: jsnum

definition valid :: "ordered_address option \<Rightarrow> waypoint option" where
  "valid entry =
     (case entry of
        None \<Rightarrow> None
      | Some addr \<Rightarrow>
          (case (oa_lat addr, oa_lon addr) of
             (Some lat, Some lon) \<Rightarrow>
               if truthy (Some lat) \<and> truthy (Some lon)
               then Some \<lparr>wp_id = oa_id addr, wp_companyName = oa_companyName addr,
                          wp_address = oa_address addr, wp_lat = lat, wp_lon = lon\<rparr>
               else None
           | _ \<Rightarrow> None))"

text \<open>
  \<^verbatim>\<open>
  let mapsUrl = '';
  if (validAddresses.length > 0) {
    const origin = encodeURIComponent(validAddresses[0].address);
    const destination = encodeURIComponent(validAddresses[validAddresses.length - 1].address);
    const waypoints = validAddresses.slice(1, -1).map(addr => encodeURIComponent(addr.address)).join('|');
    mapsUrl = `https://www.google.com/maps/dir/?api=1&origin=${origin}&destination=${destination}`;
    if (waypoints) {
      mapsUrl += `&waypoints=${waypoints}`;
    }
    mapsUrl += '&travelmode=driving';
  }
  \<close>
  The same lines build the link in the service without geocoding, from the list of the
  address texts; the function takes that list.
\<close>

definition buildMapsUrl :: "string list \<Rightarrow> string" where
  "buildMapsUrl addrs =
     (if length addrs > 0
      then
        let origin = encodeURIComponent (addrs ! 0);
            destination = encodeURIComponent (addrs ! (length addrs - 1));
            waypoints = join ''|'' (map encodeURIComponent (slice 1 (- 1) addrs));
            mapsUrl = ''https://www.google.com/maps/dir/?api=1&origin='' @ origin
                      @ ''&destination='' @ destination;
            mapsUrl = (if waypoints \<noteq> [] then mapsUrl @ ''&waypoints='' @ waypoints else mapsUrl)
        in mapsUrl @ ''&travelmode=driving''
      else [])"

text \<open>
  \<^verbatim>\<open>
  response = {
    ...response,
    mapsUrl: mapsUrl || 'No valid addresses found for mapping',
    leafletMapData: {
      waypoints: validAddresses.map(addr => ({ id: addr.id, companyName: addr.companyName,
                                               address: addr.address, coordinates: [addr.lat, addr.lon] })),
      routeGeometry: routeGeometry || null
    }
  };
  \<close>
\<close>

record response = generation +
  mapsUrl :: string
  waypoints :: "waypoint list"
  routeGeometry :: "geometry option"

text \<open>
  The body of the \<open>try\<close> block: the result, or the message of the error thrown. The link
  encodes the address of every valid address (the first, the last and those in between),
  so that building it throws when one of them is not well formed.
\<close>

definition processQuery :: "env \<Rightarrow> query_val \<Rightarrow> (string + response) \<times> event list" where
  "processQuery env query =
     (case vectorSearch env query of
        Inl msg \<Rightarrow> (Inl msg, [VectorSearch query])
      | Inr contextRecords \<Rightarrow>
          (case llmChain env (formatContext contextRecords) query of
             (Inl msg, gen) \<Rightarrow> (Inl msg, VectorSearch query # gen)
           | (Inr generated, gen) \<Rightarrow>
               let addressIds = map addressId (relevantAddresses generated)
               in case selectByIds env addressIds of
                    Inl msg \<Rightarrow> (Inl msg, VectorSearch query # gen @ [SelectByIds addressIds])
                  | Inr addresses \<Rightarrow>
                      (case Promise_all (map (resolveAddress env addresses) (relevantAddresses generated)) of
                         (Inl msg, res) \<Rightarrow>
                           (Inl msg, VectorSearch query # gen @ SelectByIds addressIds # res)
                       | (Inr orderedAddresses, res) \<Rightarrow>
                           let validAddresses = List.map_filter valid orderedAddresses;
                               coordinates = map (\<lambda>addr. (wp_lat addr, wp_lon addr)) validAddresses
                           in case getRouteGeometry env coordinates of
                                (geom, rt) \<Rightarrow>
                                  if \<not> list_all well_formed (map wp_address validAddresses)
                                  then (Inl ''URI malformed'',
                                        VectorSearch query # gen @ SelectByIds addressIds # res @ rt)
                                  else
                                    let url = buildMapsUrl (map wp_address validAddresses)
                                    in (Inr \<lparr>answer = answer generated,
                                              confidence = confidence generated,
                                              relevantAddresses = relevantAddresses generated,
                                              mapsUrl = (if url \<noteq> [] then url
                                                         else ''No valid addresses found for mapping''),
                                              waypoints = validAddresses,
                                              routeGeometry = geom\<rparr>,
                                        VectorSearch query # gen @ SelectByIds addressIds # res @ rt))))"

text \<open>
  \<^verbatim>\<open>
  async queryLLM(req) {
    const query = req.data?.prompt || req;
    if (!query) return req.reject(400, 'query is required');
    try {
      ...
      return response;
    } catch (err) {
      return req.reject(500, `Failed to process query: ${err.message}`);
    }
  }
  \<close>
\<close>

definition queryLLM :: "env \<Rightarrow> request \<Rightarrow> response outcome \<times> event list" where
  "queryLLM env req =
     (let query = queryOf req
      in if falsy query then (reject req 400 ''query is required'', [])
         else
           (case processQuery env query of
              (Inl msg, trace) \<Rightarrow> (reject req 500 (''Failed to process query: '' @ msg), trace)
            | (Inr response, trace) \<Rightarrow> (Returned response, trace)))"

section \<open>A small world to run the services in\<close>

text \<open>
  Four clients: the first has coordinates, the second and the third have none and are
  found by the geocoding service, the fourth has none and is not found. The model answers
  a prompt with the prompt itself, and a completion decodes to a result that lists, as
  address identifiers, the characters of the completion, except that the completion
  \<open>bad\<close> decodes to a result of confidence 1.5 and \<open>junk\<close> is not JSON. A repair
  attempt answers \<open>bad\<close>.
\<close>

definition mkClient :: "string \<Rightarrow> string \<Rightarrow> jsnum option \<Rightarrow> jsnum option \<Rightarrow> client" where
  "mkClient i street lat lon =
     \<lparr>ID = i, CompanyName = Some (''Co'' @ i), Address = Some street, PostalCode = Some ''1'',
      City = Some ''X'', Country = Some ''P'', Latitude = lat, Longitude = lon\<rparr>"

definition clients_table :: "client list" where
  "clients_table =
     [mkClient ''1'' ''A'' (Some (Num 38)) (Some (Num (- 9))),
      mkClient ''2'' ''B'' None None,
      mkClient ''3'' ''C'' None None,
      mkClient ''4'' ''D'' None None]"

definition mkGeneration :: "real \<Rightarrow> string list \<Rightarrow> json" where
  "mkGeneration c ids =
     JObj [(''answer'', JStr ''go''),
           (''confidence'', JNum (Num c)),
           (''relevantAddresses'',
            JArr (map (\<lambda>i. JObj [(''addressId'', JStr i), (''relevance'', JNum (Num 1))]) ids))]"

definition world :: env where
  "world =
     \<lparr>vectorSearch = (\<lambda>q. Inr [[(''ID'', Some ''1''), (''City'', None)]]),
      chatModel = (\<lambda>i. case i of
                         Prompt c q \<Rightarrow> (case q of QString s \<Rightarrow> Inr s | QRequest r \<Rightarrow> Inr ''junk'')
                       | Retry c e \<Rightarrow> Inr ''bad''),
      decode = (\<lambda>t. if t = ''junk'' then None
                      else if t = ''bad'' then Some (mkGeneration (3 / 2) [])
                      else Some (mkGeneration (9 / 10) (map (\<lambda>c. [c]) t))),
      selectMissing = Inr (filter (\<lambda>c. Latitude c = None \<or> Longitude c = None) clients_table),
      selectByIds = (\<lambda>ids. Inr (filter (\<lambda>c. ID c \<in> set ids) clients_table)),
      dbUpdate = (\<lambda>lat lon i. Inr ()),
      nominatim = (\<lambda>a. if a = ''B, 1 X, P'' then GeoData [(Num 41, Num (- 8))]
                         else if a = ''C, 1 X, P'' then GeoData [(Num 40, Num (- 8))]
                         else GeoData []),
      osrm = (\<lambda>cs. RouteData (Some [Some (GeoJSON ''LineString'')]))\<rparr>"

text \<open>The same world with the routing engine down, and with the table refusing writes.\<close>

definition world_no_route :: env where
  "world_no_route = world\<lparr>osrm := (\<lambda>cs. RouteFailed)\<rparr>"

definition world_no_write :: env where
  "world_no_write = world\<lparr>dbUpdate := (\<lambda>lat lon i. Inl ''connection lost'')\<rparr>"

text \<open>The same world again, with the table refusing writes and the geocoding service unreachable.\<close>

definition world_offline :: env where
  "world_offline = world_no_write\<lparr>nominatim := (\<lambda>a. GeoFailed)\<rparr>"

text \<open>
  A table whose only client without coordinates has a lone surrogate (the code \<open>D800\<close>) as
  its street.
\<close>

definition world_ill_formed :: env where
  "world_ill_formed =
     world\<lparr>selectMissing := Inr [mkClient ''5'' [CHR 0xED, CHR 0xA0, CHR 0x80] None None]\<rparr>"





section \<open>Properties of the vector operations\<close>


















section \<open>The route builder\<close>

text \<open>
  C7. \<open>getRouteGeometry\<close> given fewer than 2 waypoints returns no geometry and does not
  call the routing engine; given 2 or more it calls the engine exactly once; when the
  request fails or the reply has no route, the result is no geometry. The result is an
  optional geometry in every case: the function has no way to raise.
\<close>

theorem getRouteGeometry_engine_calls:
  "(length coordinates < 2 \<longrightarrow> getRouteGeometry env coordinates = (None, []))
   \<and> (2 \<le> length coordinates \<longrightarrow>
        snd (getRouteGeometry env coordinates) = [Route coordinates]
        \<and> (osrm env coordinates \<in> {RouteFailed, RouteData None, RouteData (Some [])}
             \<longrightarrow> fst (getRouteGeometry env coordinates) = None)
        \<and> (\<forall>r rs. osrm env coordinates = RouteData (Some (r # rs))
             \<longrightarrow> fst (getRouteGeometry env coordinates) = r))"
  by (auto simp: getRouteGeometry_def split: route_reply.splits option.splits list.splits)

theorem getRouteGeometry_engine_calls_witness:
  "getRouteGeometry world [(Num 38, Num (- 9))] = (None, [])
   \<and> getRouteGeometry world_no_route [(Num 38, Num (- 9)), (Num 41, Num (- 8))]
       = (None, [Route [(Num 38, Num (- 9)), (Num 41, Num (- 8))]])
   \<and> getRouteGeometry world [(Num 38, Num (- 9)), (Num 41, Num (- 8))]
       = (Some (GeoJSON ''LineString''), [Route [(Num 38, Num (- 9)), (Num 41, Num (- 8))]])"
proof -
  let ?one = "[(Num 38, Num (- 9))]" and ?two = "[(Num 38, Num (- 9)), (Num 41, Num (- 8))]"
  have down: "osrm world_no_route ?two = RouteFailed"
    by (simp add: world_no_route_def world_def)
  have up: "osrm world ?two = RouteData (Some [Some (GeoJSON ''LineString'')])"
    by (simp add: world_def)
  from getRouteGeometry_engine_calls [of ?one world]
  have "getRouteGeometry world ?one = (None, [])" by simp
  moreover from getRouteGeometry_engine_calls [of ?two world_no_route] down
  have "getRouteGeometry world_no_route ?two = (None, [Route ?two])"
    by (simp add: prod_eq_iff)
  moreover from getRouteGeometry_engine_calls [of ?two world] up
  have "getRouteGeometry world ?two = (Some (GeoJSON ''LineString''), [Route ?two])"
    by (simp add: prod_eq_iff)
  ultimately show ?thesis by simp
qed

section \<open>The guard of queryLLM\<close>

lemma queryOf_empty_prompt: "queryOf (Request (Some [])) = QRequest (Request (Some []))"
  by (simp add: queryOf_def)

lemma processQuery_first_call:
  "\<exists>rest. snd (processQuery env query) = VectorSearch query # rest"
  by (auto simp: processQuery_def Let_def split: sum.splits prod.splits)

text \<open>
  C1. The claim: a request whose query string is empty is rejected at once with status 400
  and no embedding, search or generation call. The code at the request
  \<open>{ data: { prompt: "" } }\<close>: the empty prompt is falsy, so \<open>query\<close> is the request
  object, which is truthy; the guard does not fire, the similarity search is called with
  the request object, and whatever the collaborators answer the outcome is not the
  rejection with status 400.
\<close>

theorem empty_prompt_reaches_search:
  "(\<exists>rest. snd (queryLLM env (Request (Some []))) = VectorSearch (QRequest (Request (Some []))) # rest)
   \<and> (\<forall>msg. fst (queryLLM env (Request (Some []))) \<noteq> Rejected 400 msg)"
proof -
  let ?q = "QRequest (Request (Some []))"
  obtain r t where p: "processQuery env ?q = (r, t)" by (cases "processQuery env ?q")
  from processQuery_first_call [of env ?q] p obtain rest where t: "t = VectorSearch ?q # rest"
    by auto
  show ?thesis
    using p t by (cases r) (simp_all add: queryLLM_def queryOf_empty_prompt reject_def)
qed

text \<open>No request at all is answered with status 400: on a falsy \<open>query\<close>, \<open>req\<close> is a string.\<close>

lemma no_request_is_rejected_400: "fst (queryLLM env req) \<noteq> Rejected 400 msg"
proof (cases req)
  case (DirectString s)
  then show ?thesis
    by (auto simp: queryLLM_def queryOf_def reject_def Let_def split: sum.splits prod.splits)
next
  case (Request p)
  then show ?thesis
    by (auto simp: queryLLM_def queryOf_def reject_def Let_def
             split: sum.splits prod.splits option.splits)
qed

section \<open>The fallback link\<close>

lemma slice_interior: "slice 1 (- 1) xs = butlast (tl xs)"
proof (cases xs)
  case Nil
  then show ?thesis by (simp add: slice_def)
next
  case (Cons x ys)
  then show ?thesis
    by (simp add: slice_def Let_def butlast_conv_take nat_diff_distrib')
qed

lemma join_Cons_nonempty: "x \<noteq> [] \<Longrightarrow> join sep (x # xs) \<noteq> []"
  by (cases xs) simp_all

lemma encodeURIComponent_nonempty: "s \<noteq> [] \<Longrightarrow> encodeURIComponent s \<noteq> []"
  by (cases s) (simp_all add: encodeURIComponent_def encodeChar_def)

lemma fullAddress_nonempty: "fullAddress c \<noteq> []"
  by (simp add: fullAddress_def)

lemma buildMapsUrl_Nil: "buildMapsUrl [] = []"
  by (simp add: buildMapsUrl_def)

lemma buildMapsUrl_nonempty:
  assumes "xs \<noteq> []" and "\<forall>x\<in>set xs. x \<noteq> []"
  shows "buildMapsUrl xs =
     ''https://www.google.com/maps/dir/?api=1&origin='' @ encodeURIComponent (hd xs)
     @ ''&destination='' @ encodeURIComponent (last xs)
     @ (if butlast (tl xs) = [] then []
        else ''&waypoints='' @ join ''|'' (map encodeURIComponent (butlast (tl xs))))
     @ ''&travelmode=driving''"
proof -
  let ?mid = "butlast (tl xs)"
  have hd: "xs ! 0 = hd xs" using assms(1) by (simp add: hd_conv_nth)
  have last: "xs ! (length xs - Suc 0) = last xs" using assms(1) by (simp add: last_conv_nth)
  have mid_sub: "set ?mid \<subseteq> set xs"
  proof
    fix x assume "x \<in> set ?mid"
    then have "x \<in> set (tl xs)" by (rule in_set_butlastD)
    then show "x \<in> set xs" using assms(1) by (simp add: list.set_sel(2))
  qed
  have "join ''|'' (map encodeURIComponent ?mid) \<noteq> []" if "?mid \<noteq> []"
  proof -
    from that obtain m ms where m: "?mid = m # ms" by (cases ?mid) auto
    then have "m \<in> set xs" using mid_sub by auto
    then have "encodeURIComponent m \<noteq> []" using assms(2) by (simp add: encodeURIComponent_nonempty)
    then show ?thesis using m by (simp add: join_Cons_nonempty)
  qed
  then show ?thesis
    using assms(1) by (auto simp: buildMapsUrl_def Let_def slice_interior hd last)
qed

lemma collect_Inr: "collect rs = Inr vs \<Longrightarrow> rs = map Inr vs"
proof (induction rs arbitrary: vs)
  case Nil
  then show ?case by simp
next
  case (Cons r rs)
  then show ?case by (cases r) (auto split: sum.splits)
qed

lemma resolveAddress_address:
  "fst (resolveAddress env addresses rel) = Inr (Some a) \<Longrightarrow> \<exists>c. oa_address a = fullAddress c"
  by (auto simp: resolveAddress_def split: option.splits if_splits prod.splits sum.splits)

lemma valid_address: "valid entry = Some w \<Longrightarrow> \<exists>a. entry = Some a \<and> wp_address w = oa_address a"
  by (auto simp: valid_def split: option.splits if_splits)

lemma Promise_all_results:
  assumes "Promise_all (map f xs) = (Inr vs, evs)"
  shows "map (\<lambda>x. fst (f x)) xs = map Inr vs"
  using assms by (auto simp: Promise_all_def comp_def dest: collect_Inr)

lemma resolved_waypoint_address:
  assumes "Promise_all (map (resolveAddress env addresses) rels) = (Inr ordered, evs)"
    and "w \<in> set (List.map_filter valid ordered)"
  shows "wp_address w \<noteq> []"
proof -
  from assms(2) obtain entry where e: "entry \<in> set ordered" "valid entry = Some w"
    by (auto simp: List.map_filter_def)
  then obtain a where a: "entry = Some a" "wp_address w = oa_address a"
    by (auto dest: valid_address)
  from Promise_all_results [OF assms(1)] have "Inr ` set ordered = (\<lambda>x. fst (resolveAddress env addresses x)) ` set rels"
    by (metis list.set_map)
  with e(1) a(1) obtain rel where "fst (resolveAddress env addresses rel) = Inr (Some a)"
    by (metis (no_types, lifting) imageE image_eqI)
  then obtain c where "oa_address a = fullAddress c" by (auto dest: resolveAddress_address)
  with a(2) show ?thesis by (simp add: fullAddress_nonempty)
qed

text \<open>What a returned response is made of.\<close>

lemma processQuery_Inr:
  assumes "processQuery env q = (Inr resp, trace)"
  obtains recs g gen addresses ordered res geom rt where
    "vectorSearch env q = Inr recs"
    "llmChain env (formatContext recs) q = (Inr g, gen)"
    "selectByIds env (map addressId (relevantAddresses g)) = Inr addresses"
    "Promise_all (map (resolveAddress env addresses) (relevantAddresses g)) = (Inr ordered, res)"
    "getRouteGeometry env (map (\<lambda>addr. (wp_lat addr, wp_lon addr)) (List.map_filter valid ordered)) = (geom, rt)"
    "answer resp = answer g" "confidence resp = confidence g"
    "relevantAddresses resp = relevantAddresses g"
    "waypoints resp = List.map_filter valid ordered"
    "routeGeometry resp = geom"
    "mapsUrl resp = (if buildMapsUrl (map wp_address (List.map_filter valid ordered)) \<noteq> []
                     then buildMapsUrl (map wp_address (List.map_filter valid ordered))
                     else ''No valid addresses found for mapping'')"
    "trace = VectorSearch q # gen @ SelectByIds (map addressId (relevantAddresses g)) # res @ rt"
  using assms unfolding processQuery_def Let_def
  by (auto split: sum.splits prod.splits if_splits)

lemma queryLLM_Returned:
  assumes "queryLLM env req = (Returned resp, trace)"
  shows "processQuery env (queryOf req) = (Inr resp, trace)"
  using assms
  by (auto simp: queryLLM_def Let_def reject_def split: if_splits prod.splits sum.splits request.splits)

lemma response_mapsUrl:
  assumes "queryLLM env req = (Returned resp, trace)"
  shows "mapsUrl resp = (if buildMapsUrl (map wp_address (waypoints resp)) \<noteq> []
                         then buildMapsUrl (map wp_address (waypoints resp))
                         else ''No valid addresses found for mapping'')"
    and "\<forall>w\<in>set (waypoints resp). wp_address w \<noteq> []"
proof -
  from queryLLM_Returned [OF assms] have p: "processQuery env (queryOf req) = (Inr resp, trace)" .
  from p show "mapsUrl resp = (if buildMapsUrl (map wp_address (waypoints resp)) \<noteq> []
                         then buildMapsUrl (map wp_address (waypoints resp))
                         else ''No valid addresses found for mapping'')"
    by (rule processQuery_Inr) simp
  from p show "\<forall>w\<in>set (waypoints resp). wp_address w \<noteq> []"
    by (rule processQuery_Inr) (auto dest: resolved_waypoint_address)
qed



text \<open>The link of a response with at least one waypoint.\<close>

lemma response_url:
  assumes "queryLLM env req = (Returned resp, trace)" and "waypoints resp \<noteq> []"
  shows "mapsUrl resp =
     ''https://www.google.com/maps/dir/?api=1&origin=''
     @ encodeURIComponent (wp_address (hd (waypoints resp)))
     @ ''&destination='' @ encodeURIComponent (wp_address (last (waypoints resp)))
     @ (if butlast (tl (waypoints resp)) = [] then []
        else ''&waypoints=''
             @ join ''|'' (map (\<lambda>w. encodeURIComponent (wp_address w)) (butlast (tl (waypoints resp)))))
     @ ''&travelmode=driving''"
proof -
  let ?ws = "waypoints resp" and ?xs = "map wp_address (waypoints resp)"
  have ne: "?xs \<noteq> []" using assms(2) by simp
  have all: "\<forall>x\<in>set ?xs. x \<noteq> []" using response_mapsUrl(2) [OF assms(1)] by simp
  have url: "buildMapsUrl ?xs \<noteq> []"
    by (simp add: buildMapsUrl_nonempty [OF ne all])
  have "mapsUrl resp = buildMapsUrl ?xs"
    using response_mapsUrl(1) [OF assms(1)] url by simp
  also have "\<dots> = ''https://www.google.com/maps/dir/?api=1&origin='' @ encodeURIComponent (hd ?xs)
     @ ''&destination='' @ encodeURIComponent (last ?xs)
     @ (if butlast (tl ?xs) = [] then []
        else ''&waypoints='' @ join ''|'' (map encodeURIComponent (butlast (tl ?xs))))
     @ ''&travelmode=driving''"
    by (rule buildMapsUrl_nonempty [OF ne all])
  finally have url: "mapsUrl resp = ''https://www.google.com/maps/dir/?api=1&origin='' @ encodeURIComponent (hd ?xs)
     @ ''&destination='' @ encodeURIComponent (last ?xs)
     @ (if butlast (tl ?xs) = [] then []
        else ''&waypoints='' @ join ''|'' (map encodeURIComponent (butlast (tl ?xs))))
     @ ''&travelmode=driving''" .
  have first: "hd ?xs = wp_address (hd ?ws)" using assms(2) by (simp add: hd_map)
  have final: "last ?xs = wp_address (last ?ws)" using assms(2) by (simp add: last_map)
  have mid: "butlast (tl ?xs) = map wp_address (butlast (tl ?ws))"
    by (simp add: map_butlast map_tl)
  show ?thesis
    unfolding url first final mid by (simp add: comp_def)
qed


text \<open>Three runs of the pipeline in the small world.\<close>

lemma run_no_route:
  "queryLLM world_no_route (Request (Some ''123'')) =
    (Returned
      \<lparr>answer = ''go'', confidence = 9 / 10,
       relevantAddresses =
         [\<lparr>addressId = ''1'', relevance = 1\<rparr>, \<lparr>addressId = ''2'', relevance = 1\<rparr>,
          \<lparr>addressId = ''3'', relevance = 1\<rparr>],
       mapsUrl = ''https://www.google.com/maps/dir/?api=1&origin=A%2C%201%20X%2C%20P&destination=C%2C%201%20X%2C%20P&waypoints=B%2C%201%20X%2C%20P&travelmode=driving'',
       waypoints =
         [\<lparr>wp_id = ''1'', wp_companyName = Some ''Co1'', wp_address = ''A, 1 X, P'',
           wp_lat = Num 38, wp_lon = Num (- 9)\<rparr>,
          \<lparr>wp_id = ''2'', wp_companyName = Some ''Co2'', wp_address = ''B, 1 X, P'',
           wp_lat = Num 41, wp_lon = Num (- 8)\<rparr>,
          \<lparr>wp_id = ''3'', wp_companyName = Some ''Co3'', wp_address = ''C, 1 X, P'',
           wp_lat = Num 40, wp_lon = Num (- 8)\<rparr>],
       routeGeometry = None\<rparr>,
     [VectorSearch (QString ''123''),
      Generate (Prompt ''Address Record: {ID: 1, City: N/A}'' (QString ''123'')),
      SelectByIds [''1'', ''2'', ''3''], Geocode ''B, 1 X, P'', Geocode ''C, 1 X, P'',
      Update (Num 41) (Num (- 8)) ''2'', Update (Num 40) (Num (- 8)) ''3'',
      Route [(Num 38, Num (- 9)), (Num 41, Num (- 8)), (Num 40, Num (- 8))]])"
  by code_simp

lemma run_single:
  "queryLLM world (Request (Some ''1'')) =
    (Returned
      \<lparr>answer = ''go'', confidence = 9 / 10,
       relevantAddresses = [\<lparr>addressId = ''1'', relevance = 1\<rparr>],
       mapsUrl = ''https://www.google.com/maps/dir/?api=1&origin=A%2C%201%20X%2C%20P&destination=A%2C%201%20X%2C%20P&travelmode=driving'',
       waypoints =
         [\<lparr>wp_id = ''1'', wp_companyName = Some ''Co1'', wp_address = ''A, 1 X, P'',
           wp_lat = Num 38, wp_lon = Num (- 9)\<rparr>],
       routeGeometry = None\<rparr>,
     [VectorSearch (QString ''1''),
      Generate (Prompt ''Address Record: {ID: 1, City: N/A}'' (QString ''1'')),
      SelectByIds [''1'']])"
  by code_simp

lemma run_none:
  "queryLLM world (Request (Some ''4'')) =
    (Returned
      \<lparr>answer = ''go'', confidence = 9 / 10,
       relevantAddresses = [\<lparr>addressId = ''4'', relevance = 1\<rparr>],
       mapsUrl = ''No valid addresses found for mapping'', waypoints = [],
       routeGeometry = None\<rparr>,
     [VectorSearch (QString ''4''),
      Generate (Prompt ''Address Record: {ID: 1, City: N/A}'' (QString ''4'')),
      SelectByIds [''4''], Geocode ''D, 1 X, P''])"
  by code_simp


text \<open>
  C4, as amended. For every response of the pipeline with at least one resolved waypoint,
  the fallback link is built from the first waypoint as origin, the last as destination
  and the interior waypoints, in order and joined by \<open>|\<close>, as intermediate stops (the
  parameter is left out when there is none), with \<open>travelmode=driving\<close> at the end.
  Nothing is assumed of the route geometry: the link is the same when the routing engine
  fails.
\<close>

theorem fallback_url_from_waypoints:
  assumes "queryLLM env req = (Returned resp, trace)" and "waypoints resp \<noteq> []"
  shows "mapsUrl resp =
     ''https://www.google.com/maps/dir/?api=1&origin=''
     @ encodeURIComponent (wp_address (hd (waypoints resp)))
     @ ''&destination='' @ encodeURIComponent (wp_address (last (waypoints resp)))
     @ (if butlast (tl (waypoints resp)) = [] then []
        else ''&waypoints=''
             @ join ''|'' (map (\<lambda>w. encodeURIComponent (wp_address w)) (butlast (tl (waypoints resp)))))
     @ ''&travelmode=driving''"
  using assms by (rule response_url)

theorem fallback_url_from_waypoints_witness:
  "\<exists>resp trace.
     queryLLM world_no_route (Request (Some ''123'')) = (Returned resp, trace)
     \<and> map wp_address (waypoints resp) = [''A, 1 X, P'', ''B, 1 X, P'', ''C, 1 X, P'']
     \<and> routeGeometry resp = None
     \<and> mapsUrl resp =
         ''https://www.google.com/maps/dir/?api=1&origin='' @ encodeURIComponent ''A, 1 X, P''
         @ ''&destination='' @ encodeURIComponent ''C, 1 X, P''
         @ ''&waypoints='' @ encodeURIComponent ''B, 1 X, P'' @ ''&travelmode=driving''"
  using fallback_url_from_waypoints [OF run_no_route] by (simp add: run_no_route)


text \<open>
  The claim as stated fails for a response without any resolved waypoint: the field is
  then a message, not a link.
\<close>

theorem no_waypoint_no_url_counterexample:
  "queryLLM world (Request (Some ''4'')) =
    (Returned
      \<lparr>answer = ''go'', confidence = 9 / 10,
       relevantAddresses = [\<lparr>addressId = ''4'', relevance = 1\<rparr>],
       mapsUrl = ''No valid addresses found for mapping'', waypoints = [],
       routeGeometry = None\<rparr>,
     [VectorSearch (QString ''4''),
      Generate (Prompt ''Address Record: {ID: 1, City: N/A}'' (QString ''4'')),
      SelectByIds [''4''], Geocode ''D, 1 X, P''])"
  by code_simp


text \<open>
  C10. When the list of resolved waypoints has exactly one element, the link has that
  address as origin and as destination and no \<open>waypoints\<close> parameter; when the list is
  empty, the field \<open>mapsUrl\<close> is the text \<open>No valid addresses found for mapping\<close>.
\<close>

theorem single_or_no_waypoint:
  assumes "queryLLM env req = (Returned resp, trace)"
  shows "(\<forall>w. waypoints resp = [w] \<longrightarrow>
            mapsUrl resp =
              ''https://www.google.com/maps/dir/?api=1&origin='' @ encodeURIComponent (wp_address w)
              @ ''&destination='' @ encodeURIComponent (wp_address w) @ ''&travelmode=driving'')
         \<and> (waypoints resp = [] \<longrightarrow> mapsUrl resp = ''No valid addresses found for mapping'')"
proof (intro conjI allI impI)
  fix w assume w: "waypoints resp = [w]"
  then have "waypoints resp \<noteq> []" by simp
  from response_url [OF assms this] w
  show "mapsUrl resp =
          ''https://www.google.com/maps/dir/?api=1&origin='' @ encodeURIComponent (wp_address w)
          @ ''&destination='' @ encodeURIComponent (wp_address w) @ ''&travelmode=driving''"
    by simp
next
  assume "waypoints resp = []"
  with response_mapsUrl(1) [OF assms] show "mapsUrl resp = ''No valid addresses found for mapping''"
    by (simp add: buildMapsUrl_Nil)
qed

theorem single_or_no_waypoint_witness:
  "(\<exists>resp trace.
      queryLLM world (Request (Some ''1'')) = (Returned resp, trace)
      \<and> map wp_address (waypoints resp) = [''A, 1 X, P'']
      \<and> mapsUrl resp =
          ''https://www.google.com/maps/dir/?api=1&origin='' @ encodeURIComponent ''A, 1 X, P''
          @ ''&destination='' @ encodeURIComponent ''A, 1 X, P'' @ ''&travelmode=driving'')
   \<and> (\<exists>resp trace.
      queryLLM world (Request (Some ''4'')) = (Returned resp, trace)
      \<and> waypoints resp = []
      \<and> mapsUrl resp = ''No valid addresses found for mapping'')"
  using single_or_no_waypoint [OF run_single] single_or_no_waypoint [OF run_none]
  by (simp add: run_single run_none)

section \<open>The structured generator\<close>

lemma z_number_range: "z_number_min0_max1 j = Some r \<Longrightarrow> 0 \<le> r \<and> r \<le> 1"
  by (auto simp: z_number_min0_max1_def split: json.splits jsnum.splits if_splits)

lemma z_number_refuses:
  "c < 0 \<or> 1 < c \<Longrightarrow> z_number_min0_max1 (JNum (Num c)) = None"
  by (auto simp: z_number_min0_max1_def)

lemma z_item_range: "z_item idKey j = Some a \<Longrightarrow> 0 \<le> relevance a \<and> relevance a \<le> 1"
  by (auto simp: z_item_def dest!: z_number_range split: json.splits Option.bind_splits)

lemma those_map_Some:
  "those (map f xs) = Some ys \<Longrightarrow> y \<in> set ys \<Longrightarrow> \<exists>x\<in>set xs. f x = Some y"
proof (induction xs arbitrary: ys)
  case Nil
  then show ?case by simp
next
  case (Cons x xs)
  then show ?case by (auto split: option.splits)
qed

lemma z_array_elements:
  "z_array element j = Some ys \<Longrightarrow> y \<in> set ys \<Longrightarrow> \<exists>x. element x = Some y"
  by (auto simp: z_array_def split: json.splits dest: those_map_Some)

lemma z_output_range:
  assumes "z_output listKey idKey j = Some g"
  shows "0 \<le> confidence g \<and> confidence g \<le> 1
         \<and> (\<forall>a\<in>set (relevantAddresses g). 0 \<le> relevance a \<and> relevance a \<le> 1)"
proof -
  from assms obtain props where j: "j = JObj props"
    by (auto simp: z_output_def split: json.splits)
  from assms j obtain c l items where
    c: "z_number_min0_max1 c = Some (confidence g)" and
    items: "z_array (z_item idKey) l = Some items" "relevantAddresses g = items"
    by (auto simp: z_output_def split: Option.bind_splits)
  from c have "0 \<le> confidence g \<and> confidence g \<le> 1" by (rule z_number_range)
  moreover have "0 \<le> relevance a \<and> relevance a \<le> 1" if "a \<in> set (relevantAddresses g)" for a
  proof -
    from z_array_elements [OF items(1)] that items(2) obtain x where "z_item idKey x = Some a"
      by auto
    then show ?thesis by (rule z_item_range)
  qed
  ultimately show ?thesis by blast
qed

lemma z_output_refuses_confidence:
  assumes "map_of props ''confidence'' = Some (JNum (Num c))" and "c < 0 \<or> 1 < c"
  shows "z_output listKey idKey (JObj props) = None"
  using assms by (auto simp: z_output_def z_number_refuses split: Option.bind_splits)

lemma llmChain_repair:
  assumes "chatModel env (Prompt context query) = Inr completion"
    and "parser env completion = Inl err"
  shows "snd (llmChain env context query) = [Generate (Prompt context query), Generate (Retry completion err)]"
    and "chatModel env (Retry completion err) = Inr repaired \<Longrightarrow>
         fst (llmChain env context query) = parser env repaired"
  using assms by (auto simp: llmChain_def parserWithFix_def split: sum.splits)

lemma queryLLM_generation_fails:
  assumes "prompt \<noteq> []"
    and "vectorSearch env (QString prompt) = Inr recs"
    and "llmChain env (formatContext recs) (QString prompt) = (Inl err, gen)"
  shows "queryLLM env (Request (Some prompt)) =
         (Rejected 500 (''Failed to process query: '' @ err), VectorSearch (QString prompt) # gen)"
  using assms by (simp add: queryLLM_def queryOf_def processQuery_def reject_def)

lemma world_bad:
  "vectorSearch world (QString ''bad'') = Inr [[(''ID'', Some ''1''), (''City'', None)]]"
  "formatContext [[(''ID'', Some ''1''), (''City'', None)]] = ''Address Record: {ID: 1, City: N/A}''"
  "chatModel world (Prompt ''Address Record: {ID: 1, City: N/A}'' (QString ''bad'')) = Inr ''bad''"
  "decode world ''bad'' = Some (JObj [(''answer'', JStr ''go''), (''confidence'', JNum (Num (3 / 2))),
                                       (''relevantAddresses'', JArr [])])"
  "chatModel world (Retry ''bad'' ''Failed to parse. Text: bad'') = Inr ''bad''"
  by (simp_all add: world_def formatContext_def formatRecord_def mkGeneration_def)


text \<open>
  C3. A generation result is accepted (by the schema of the routing service and by that
  of the invoice service) only with its confidence and every relevance in \<open>[0, 1]\<close>,
  bounds included; a result with a confidence outside (such as 1.5) is refused. When the first completion is refused, exactly one repair call is made, and
  when the repaired completion is refused too, the chain fails with that error and
  \<open>queryLLM\<close> rejects with it, without any further call.
\<close>

theorem schema_checked_one_repair:
  "(\<forall>g. outputSchema j = Some g \<or> invoiceSchema j = Some g \<longrightarrow>
        0 \<le> confidence g \<and> confidence g \<le> 1
        \<and> (\<forall>a\<in>set (relevantAddresses g). 0 \<le> relevance a \<and> relevance a \<le> 1))
   \<and> (\<forall>props c. map_of props ''confidence'' = Some (JNum (Num c)) \<and> (c < 0 \<or> 1 < c) \<longrightarrow>
        outputSchema (JObj props) = None)
   \<and> (\<forall>completion err.
        chatModel env (Prompt context query) = Inr completion \<and> parser env completion = Inl err \<longrightarrow>
        snd (llmChain env context query)
          = [Generate (Prompt context query), Generate (Retry completion err)]
        \<and> (\<forall>repaired err'.
              chatModel env (Retry completion err) = Inr repaired \<and> parser env repaired = Inl err' \<longrightarrow>
              fst (llmChain env context query) = Inl err'))
   \<and> (\<forall>prompt recs completion err repaired err'.
        prompt \<noteq> [] \<and> vectorSearch env (QString prompt) = Inr recs
        \<and> chatModel env (Prompt (formatContext recs) (QString prompt)) = Inr completion
        \<and> parser env completion = Inl err
        \<and> chatModel env (Retry completion err) = Inr repaired
        \<and> parser env repaired = Inl err' \<longrightarrow>
        queryLLM env (Request (Some prompt))
          = (Rejected 500 (''Failed to process query: '' @ err'),
             [VectorSearch (QString prompt),
              Generate (Prompt (formatContext recs) (QString prompt)),
              Generate (Retry completion err)]))"
proof (intro conjI allI impI)
  fix g assume "outputSchema j = Some g \<or> invoiceSchema j = Some g"
  then have r: "0 \<le> confidence g \<and> confidence g \<le> 1
         \<and> (\<forall>a\<in>set (relevantAddresses g). 0 \<le> relevance a \<and> relevance a \<le> 1)"
    unfolding outputSchema_def invoiceSchema_def by (auto dest: z_output_range)
  from r show "0 \<le> confidence g" by simp
  from r show "confidence g \<le> 1" by simp
  from r show "\<forall>a\<in>set (relevantAddresses g). 0 \<le> relevance a \<and> relevance a \<le> 1" by simp
next
  fix props c
  assume "map_of props ''confidence'' = Some (JNum (Num c)) \<and> (c < 0 \<or> 1 < c)"
  then show "outputSchema (JObj props) = None"
    unfolding outputSchema_def by (auto intro: z_output_refuses_confidence)
next
  fix completion err
  assume a: "chatModel env (Prompt context query) = Inr completion \<and> parser env completion = Inl err"
  then show "snd (llmChain env context query)
          = [Generate (Prompt context query), Generate (Retry completion err)]"
    by (simp add: llmChain_repair(1))
  fix repaired err'
  assume "chatModel env (Retry completion err) = Inr repaired \<and> parser env repaired = Inl err'"
  with a show "fst (llmChain env context query) = Inl err'"
    by (simp add: llmChain_repair(2))
next
  fix prompt recs completion err repaired err'
  assume a: "prompt \<noteq> [] \<and> vectorSearch env (QString prompt) = Inr recs
        \<and> chatModel env (Prompt (formatContext recs) (QString prompt)) = Inr completion
        \<and> parser env completion = Inl err
        \<and> chatModel env (Retry completion err) = Inr repaired
        \<and> parser env repaired = Inl err'"
  let ?c = "formatContext recs" and ?q = "QString prompt"
  from a have "snd (llmChain env ?c ?q) = [Generate (Prompt ?c ?q), Generate (Retry completion err)]"
    and "fst (llmChain env ?c ?q) = Inl err'"
    by (simp_all add: llmChain_repair)
  then have "llmChain env ?c ?q = (Inl err', [Generate (Prompt ?c ?q), Generate (Retry completion err)])"
    by (simp add: prod_eq_iff)
  with a show "queryLLM env (Request (Some prompt))
          = (Rejected 500 (''Failed to process query: '' @ err'),
             [VectorSearch ?q, Generate (Prompt ?c ?q), Generate (Retry completion err)])"
    by (simp add: queryLLM_generation_fails)
qed

theorem schema_checked_one_repair_witness:
  "outputSchema (JObj [(''answer'', JStr ''go''), (''confidence'', JNum (Num (3 / 2))),
                       (''relevantAddresses'', JArr [])]) = None
   \<and> snd (llmChain world ''Address Record: {ID: 1, City: N/A}'' (QString ''bad''))
       = [Generate (Prompt ''Address Record: {ID: 1, City: N/A}'' (QString ''bad'')),
          Generate (Retry ''bad'' ''Failed to parse. Text: bad'')]
   \<and> queryLLM world (Request (Some ''bad''))
       = (Rejected 500 ''Failed to process query: Failed to parse. Text: bad'',
          [VectorSearch (QString ''bad''),
           Generate (Prompt ''Address Record: {ID: 1, City: N/A}'' (QString ''bad'')),
           Generate (Retry ''bad'' ''Failed to parse. Text: bad'')])"
proof -
  let ?props = "[(''answer'', JStr ''go''), (''confidence'', JNum (Num (3 / 2))),
                 (''relevantAddresses'', JArr [])]"
  let ?c = "''Address Record: {ID: 1, City: N/A}''"
  let ?e = "''Failed to parse. Text: bad''"
  note t = schema_checked_one_repair [of "JObj ?props" world ?c "QString ''bad''"]
  from t have "map_of ?props ''confidence'' = Some (JNum (Num (3 / 2))) \<and> ((3 / 2 :: real) < 0 \<or> (1 :: real) < 3 / 2)
               \<longrightarrow> outputSchema (JObj ?props) = None"
    by blast
  then have refused: "outputSchema (JObj ?props) = None" by simp
  then have p: "parser world ''bad'' = Inl ?e"
    by (simp add: parser_def world_bad)
  from t have "chatModel world (Prompt ?c (QString ''bad'')) = Inr ''bad'' \<and> parser world ''bad'' = Inl ?e
               \<longrightarrow> snd (llmChain world ?c (QString ''bad''))
                     = [Generate (Prompt ?c (QString ''bad'')), Generate (Retry ''bad'' ?e)]"
    by blast
  then have once: "snd (llmChain world ?c (QString ''bad''))
                     = [Generate (Prompt ?c (QString ''bad'')), Generate (Retry ''bad'' ?e)]"
    using p by (simp add: world_bad)
  from t have "''bad'' \<noteq> [] \<and> vectorSearch world (QString ''bad'') = Inr [[(''ID'', Some ''1''), (''City'', None)]]
        \<and> chatModel world (Prompt (formatContext [[(''ID'', Some ''1''), (''City'', None)]]) (QString ''bad'')) = Inr ''bad''
        \<and> parser world ''bad'' = Inl ?e
        \<and> chatModel world (Retry ''bad'' ?e) = Inr ''bad''
        \<and> parser world ''bad'' = Inl ?e \<longrightarrow>
        queryLLM world (Request (Some ''bad''))
          = (Rejected 500 (''Failed to process query: '' @ ?e),
             [VectorSearch (QString ''bad''),
              Generate (Prompt (formatContext [[(''ID'', Some ''1''), (''City'', None)]]) (QString ''bad'')),
              Generate (Retry ''bad'' ?e)])"
    by blast
  then have fails: "queryLLM world (Request (Some ''bad''))
          = (Rejected 500 (''Failed to process query: '' @ ?e),
             [VectorSearch (QString ''bad''), Generate (Prompt ?c (QString ''bad'')),
              Generate (Retry ''bad'' ?e)])"
    using p by (simp add: world_bad)
  from refused once fails show ?thesis by simp
qed


section \<open>The address resolver\<close>

lemma map_filter_Cons:
  "List.map_filter f (x # xs) = (case f x of None \<Rightarrow> List.map_filter f xs | Some y \<Rightarrow> y # List.map_filter f xs)"
  by (simp add: List.map_filter_def split: option.splits)

lemma geocodeAddress_log:
  "snd (geocodeAddress env a) = (if well_formed a then [Geocode a] else [])"
  by (simp add: geocodeAddress_def split: geo_reply.splits list.splits)

lemma geocodeAddress_well_formed:
  "well_formed a \<Longrightarrow> \<exists>coords. geocodeAddress env a = (Inr coords, [Geocode a])"
  by (simp add: geocodeAddress_def split: geo_reply.splits list.splits)

lemma geocodeAddress_Inr: "fst (geocodeAddress env a) = Inr coords \<Longrightarrow> well_formed a"
  by (auto simp: geocodeAddress_def split: if_splits)

lemma geocodeClients_lists:
  assumes "\<forall>c\<in>set clients. well_formed (fullAddress c)"
    and "\<forall>c\<in>set clients. \<forall>lat lon.
             fst (geocodeAddress env (fullAddress c)) = Inr (Some (lat, lon)) \<longrightarrow>
             dbUpdate env lat lon (ID c) = Inr ()"
  shows "fst (geocodeClients env clients (upd, fl) tr) =
         Inr (upd @ updated_entries env clients, fl @ failed_entries env clients)"
  using assms
proof (induction clients arbitrary: upd fl tr)
  case Nil
  show ?case by (simp add: updated_entries_def failed_entries_def List.map_filter_def)
next
  case (Cons c clients)
  from Cons.prems(1) have "well_formed (fullAddress c)" by simp
  then obtain coords where g: "geocodeAddress env (fullAddress c) = (Inr coords, [Geocode (fullAddress c)])"
    using geocodeAddress_well_formed by blast
  from Cons.prems have rest: "\<forall>c\<in>set clients. well_formed (fullAddress c)"
    "\<forall>c\<in>set clients. \<forall>lat lon.
             fst (geocodeAddress env (fullAddress c)) = Inr (Some (lat, lon)) \<longrightarrow>
             dbUpdate env lat lon (ID c) = Inr ()" by simp_all
  show ?case
  proof (cases coords)
    case None
    with g Cons.IH [OF rest] show ?thesis
      by (simp add: updated_entries_def failed_entries_def map_filter_Cons)
  next
    case (Some m)
    obtain lat lon where m: "m = (lat, lon)" by (cases m)
    with Some g Cons.prems(2) have "dbUpdate env lat lon (ID c) = Inr ()" by simp
    with Some m g Cons.IH [OF rest] show ?thesis
      by (simp add: updated_entries_def failed_entries_def map_filter_Cons)
  qed
qed

lemma entries_cover:
  assumes "\<forall>c\<in>set clients. well_formed (fullAddress c)"
  shows "mset (map upd_id (updated_entries env clients)) + mset (map fail_id (failed_entries env clients))
         = mset (map ID clients)"
  using assms
proof (induction clients)
  case Nil
  show ?case by (simp add: updated_entries_def failed_entries_def List.map_filter_def)
next
  case (Cons c clients)
  then have "well_formed (fullAddress c)" by simp
  then obtain coords where g: "geocodeAddress env (fullAddress c) = (Inr coords, [Geocode (fullAddress c)])"
    using geocodeAddress_well_formed by blast
  from Cons have IH: "mset (map upd_id (updated_entries env clients))
      + mset (map fail_id (failed_entries env clients)) = mset (map ID clients)" by simp
  show ?case
  proof (cases coords)
    case None
    with g IH show ?thesis
      unfolding updated_entries_def failed_entries_def by (simp add: map_filter_Cons)
  next
    case (Some m)
    with g IH show ?thesis
      unfolding updated_entries_def failed_entries_def
      by (cases m) (simp add: map_filter_Cons)
  qed
qed

lemma failed_entries_all:
  "\<forall>c\<in>set clients. fst (geocodeAddress env (fullAddress c)) = Inr None \<Longrightarrow>
   updated_entries env clients = []
   \<and> failed_entries env clients = map (\<lambda>c. \<lparr>fail_id = ID c, fail_address = fullAddress c\<rparr>) clients"
  by (induction clients) (simp_all add: updated_entries_def failed_entries_def map_filter_Cons List.map_filter_def)

lemma populateCoordinates_result:
  assumes "selectMissing env = Inr clients"
    and "\<forall>c\<in>set clients. well_formed (fullAddress c)"
    and "\<forall>c\<in>set clients. \<forall>lat lon.
             fst (geocodeAddress env (fullAddress c)) = Inr (Some (lat, lon)) \<longrightarrow>
             dbUpdate env lat lon (ID c) = Inr ()"
  shows "fst (populateCoordinates env req) =
         Returned (if clients = []
                   then \<lparr>message = AllHaveCoordinates, updated = None, failed = None\<rparr>
                   else \<lparr>message = Processed (length clients),
                         updated = Some (updated_entries env clients),
                         failed = Some (failed_entries env clients)\<rparr>)"
proof (cases "clients = []")
  case True
  with assms(1) show ?thesis by (simp add: populateCoordinates_def)
next
  case False
  obtain r t where run: "geocodeClients env clients ([], []) [SelectMissing] = (r, t)"
    by (cases "geocodeClients env clients ([], []) [SelectMissing]")
  with geocodeClients_lists [OF assms(2,3), of "[]" "[]" "[SelectMissing]"]
  have "r = Inr (updated_entries env clients, failed_entries env clients)" by simp
  with run assms(1) False show ?thesis by (simp add: populateCoordinates_def)
qed

lemma missing_clients:
  "selectMissing world = Inr [mkClient ''2'' ''B'' None None, mkClient ''3'' ''C'' None None,
                               mkClient ''4'' ''D'' None None]"
  "selectMissing world_offline = Inr [mkClient ''2'' ''B'' None None, mkClient ''3'' ''C'' None None,
                               mkClient ''4'' ''D'' None None]"
  by (simp_all add: world_offline_def world_no_write_def world_def clients_table_def mkClient_def)

lemma missing_addresses:
  "\<forall>c\<in>set [mkClient ''2'' ''B'' None None, mkClient ''3'' ''C'' None None, mkClient ''4'' ''D'' None None].
     well_formed (fullAddress c)"
  by (simp add: fullAddress_def mkClient_def tpl_def)

lemma world_writes:
  "\<forall>c\<in>set [mkClient ''2'' ''B'' None None, mkClient ''3'' ''C'' None None, mkClient ''4'' ''D'' None None].
     \<forall>lat lon. fst (geocodeAddress world (fullAddress c)) = Inr (Some (lat, lon)) \<longrightarrow>
       dbUpdate world lat lon (ID c) = Inr ()"
  by (simp add: world_def)

lemma world_entries:
  "updated_entries world [mkClient ''2'' ''B'' None None, mkClient ''3'' ''C'' None None,
                          mkClient ''4'' ''D'' None None]
   = [\<lparr>upd_id = ''2'', upd_address = ''B, 1 X, P'', upd_lat = Num 41, upd_lon = Num (- 8)\<rparr>,
      \<lparr>upd_id = ''3'', upd_address = ''C, 1 X, P'', upd_lat = Num 40, upd_lon = Num (- 8)\<rparr>]"
  "failed_entries world [mkClient ''2'' ''B'' None None, mkClient ''3'' ''C'' None None,
                         mkClient ''4'' ''D'' None None]
   = [\<lparr>fail_id = ''4'', fail_address = ''D, 1 X, P''\<rparr>]"
  by code_simp+

lemma offline_all_fail:
  "\<forall>c\<in>set [mkClient ''2'' ''B'' None None, mkClient ''3'' ''C'' None None, mkClient ''4'' ''D'' None None].
     fst (geocodeAddress world_offline (fullAddress c)) = Inr None"
  by (simp add: geocodeAddress_def world_offline_def fullAddress_def mkClient_def tpl_def)


text \<open>
  C8, as amended. For every batch whose address strings are well formed and in which no
  write of the batch to the table fails, each client of the batch is recorded in exactly
  one of the two lists: in \<open>updated\<close> when the geocoding service finds it, in
  \<open>failed\<close> when the service finds nothing or the request fails, and the loop goes on
  to the next client. When every client fails, the batch returns the normal result with
  all of them in \<open>failed\<close>.
\<close>

theorem batch_partition:
  assumes "selectMissing env = Inr clients"
  shows "((\<forall>c\<in>set clients. well_formed (fullAddress c))
          \<and> (\<forall>c\<in>set clients. \<forall>lat lon.
                fst (geocodeAddress env (fullAddress c)) = Inr (Some (lat, lon)) \<longrightarrow>
                dbUpdate env lat lon (ID c) = Inr ()) \<longrightarrow>
            fst (populateCoordinates env req) =
              Returned (if clients = []
                        then \<lparr>message = AllHaveCoordinates, updated = None, failed = None\<rparr>
                        else \<lparr>message = Processed (length clients),
                              updated = Some (updated_entries env clients),
                              failed = Some (failed_entries env clients)\<rparr>)
            \<and> mset (map upd_id (updated_entries env clients))
                + mset (map fail_id (failed_entries env clients)) = mset (map ID clients))
         \<and> ((\<forall>c\<in>set clients. fst (geocodeAddress env (fullAddress c)) = Inr None) \<longrightarrow>
            fst (populateCoordinates env req) =
              Returned (if clients = []
                        then \<lparr>message = AllHaveCoordinates, updated = None, failed = None\<rparr>
                        else \<lparr>message = Processed (length clients),
                              updated = Some [],
                              failed = Some (map (\<lambda>c. \<lparr>fail_id = ID c, fail_address = fullAddress c\<rparr>)
                                                 clients)\<rparr>))"
proof (intro conjI impI)
  assume a: "(\<forall>c\<in>set clients. well_formed (fullAddress c))
          \<and> (\<forall>c\<in>set clients. \<forall>lat lon.
                fst (geocodeAddress env (fullAddress c)) = Inr (Some (lat, lon)) \<longrightarrow>
                dbUpdate env lat lon (ID c) = Inr ())"
  then have wf: "\<forall>c\<in>set clients. well_formed (fullAddress c)"
    and w: "\<forall>c\<in>set clients. \<forall>lat lon.
                fst (geocodeAddress env (fullAddress c)) = Inr (Some (lat, lon)) \<longrightarrow>
                dbUpdate env lat lon (ID c) = Inr ()"
    by blast+
  show "fst (populateCoordinates env req) =
              Returned (if clients = []
                        then \<lparr>message = AllHaveCoordinates, updated = None, failed = None\<rparr>
                        else \<lparr>message = Processed (length clients),
                              updated = Some (updated_entries env clients),
                              failed = Some (failed_entries env clients)\<rparr>)"
    by (rule populateCoordinates_result [OF assms wf w])
  show "mset (map upd_id (updated_entries env clients))
                + mset (map fail_id (failed_entries env clients)) = mset (map ID clients)"
    by (rule entries_cover [OF wf])
next
  assume none: "\<forall>c\<in>set clients. fst (geocodeAddress env (fullAddress c)) = Inr None"
  then have wf: "\<forall>c\<in>set clients. well_formed (fullAddress c)"
    by (blast intro: geocodeAddress_Inr)
  from none have w: "\<forall>c\<in>set clients. \<forall>lat lon.
             fst (geocodeAddress env (fullAddress c)) = Inr (Some (lat, lon)) \<longrightarrow>
             dbUpdate env lat lon (ID c) = Inr ()"
    by simp
  from populateCoordinates_result [OF assms wf w, of req] failed_entries_all [OF none]
  show "fst (populateCoordinates env req) =
              Returned (if clients = []
                        then \<lparr>message = AllHaveCoordinates, updated = None, failed = None\<rparr>
                        else \<lparr>message = Processed (length clients),
                              updated = Some [],
                              failed = Some (map (\<lambda>c. \<lparr>fail_id = ID c, fail_address = fullAddress c\<rparr>)
                                                 clients)\<rparr>)"
    by simp
qed

theorem batch_partition_witness:
  "fst (populateCoordinates world (Request None)) =
     Returned \<lparr>message = Processed 3,
               updated = Some [\<lparr>upd_id = ''2'', upd_address = ''B, 1 X, P'', upd_lat = Num 41, upd_lon = Num (- 8)\<rparr>,
                               \<lparr>upd_id = ''3'', upd_address = ''C, 1 X, P'', upd_lat = Num 40, upd_lon = Num (- 8)\<rparr>],
               failed = Some [\<lparr>fail_id = ''4'', fail_address = ''D, 1 X, P''\<rparr>]\<rparr>
   \<and> fst (populateCoordinates world_offline (Request None)) =
     Returned \<lparr>message = Processed 3, updated = Some [],
               failed = Some [\<lparr>fail_id = ''2'', fail_address = ''B, 1 X, P''\<rparr>,
                              \<lparr>fail_id = ''3'', fail_address = ''C, 1 X, P''\<rparr>,
                              \<lparr>fail_id = ''4'', fail_address = ''D, 1 X, P''\<rparr>]\<rparr>"
proof -
  from batch_partition [OF missing_clients(1), of "Request None"] missing_addresses world_writes
  have "fst (populateCoordinates world (Request None)) =
     Returned \<lparr>message = Processed 3,
               updated = Some [\<lparr>upd_id = ''2'', upd_address = ''B, 1 X, P'', upd_lat = Num 41, upd_lon = Num (- 8)\<rparr>,
                               \<lparr>upd_id = ''3'', upd_address = ''C, 1 X, P'', upd_lat = Num 40, upd_lon = Num (- 8)\<rparr>],
               failed = Some [\<lparr>fail_id = ''4'', fail_address = ''D, 1 X, P''\<rparr>]\<rparr>"
    by (simp add: world_entries)
  moreover from batch_partition [OF missing_clients(2), of "Request None", THEN conjunct2]
    offline_all_fail
  have "fst (populateCoordinates world_offline (Request None)) =
     Returned \<lparr>message = Processed 3, updated = Some [],
               failed = Some [\<lparr>fail_id = ''2'', fail_address = ''B, 1 X, P''\<rparr>,
                              \<lparr>fail_id = ''3'', fail_address = ''C, 1 X, P''\<rparr>,
                              \<lparr>fail_id = ''4'', fail_address = ''D, 1 X, P''\<rparr>]\<rparr>"
    by (simp add: fullAddress_def mkClient_def tpl_def)
  ultimately show ?thesis by simp
qed


text \<open>
  The claim as stated fails for a batch in which a write to the table fails: the batch is
  aborted with status 500 and no list is returned.
\<close>

theorem failed_write_aborts_batch_counterexample:
  "populateCoordinates world_no_write (Request None) =
     (Rejected 500 ''Failed to populate coordinates: connection lost'',
      [SelectMissing, Geocode ''B, 1 X, P'', Update (Num 41) (Num (- 8)) ''2''])"
  by code_simp


text \<open>
  An address with a lone surrogate aborts the batch as well: \<open>encodeURIComponent\<close>
  stands before the \<^verbatim>\<open>try\<close> of \<open>geocodeAddress\<close>, so its \<open>URIError\<close> reaches the handler of
  \<open>populateCoordinates\<close>, although no write failed.
\<close>

lemma ill_formed_address_aborts_batch:
  "populateCoordinates world_ill_formed (Request None) =
     (Rejected 500 ''Failed to populate coordinates: URI malformed'', [SelectMissing])"
  by code_simp


subsection \<open>The delay between geocoding calls\<close>

text \<open>
  In \<open>populateCoordinates\<close> a timer of 1000 ms is awaited after every client, found or
  not: the delays between the successive geocoding calls of a batch are all 1000 ms.
\<close>

lemma geocodeClients_log:
  "snd (geocodeClients env clients results tr) = tr @ snd (geocodeClients env clients ([], []) [])"
proof (induction clients arbitrary: results tr)
  case Nil
  show ?case by simp
next
  case (Cons c clients)
  obtain upd fl where r: "results = (upd, fl)" by (cases results)
  obtain res evs where g: "geocodeAddress env (fullAddress c) = (res, evs)"
    by (cases "geocodeAddress env (fullAddress c)")
  show ?case
  proof (cases res)
    case (Inl msg)
    with r g show ?thesis by simp
  next
    case (Inr coords)
    show ?thesis
    proof (cases coords)
      case None
      with Inr r g show ?thesis
        using Cons.IH [of "(upd, fl @ [\<lparr>fail_id = ID c, fail_address = fullAddress c\<rparr>])" "tr @ evs @ [Sleep 1000]"]
              Cons.IH [of "([], [] @ [\<lparr>fail_id = ID c, fail_address = fullAddress c\<rparr>])" "[] @ evs @ [Sleep 1000]"]
        by simp
    next
      case (Some m)
      obtain lat lon where m: "m = (lat, lon)" by (cases m)
      let ?u = "\<lparr>upd_id = ID c, upd_address = fullAddress c, upd_lat = lat, upd_lon = lon\<rparr>"
      show ?thesis
      proof (cases "dbUpdate env lat lon (ID c)")
        case (Inl msg)
        with Some m Inr r g show ?thesis by simp
      next
        case (Inr u)
        with Some m \<open>res = Inr coords\<close> r g show ?thesis
          using Cons.IH [of "(upd @ [?u], fl)" "tr @ evs @ [Update lat lon (ID c), Sleep 1000]"]
                Cons.IH [of "([] @ [?u], [])" "[] @ evs @ [Update lat lon (ID c), Sleep 1000]"]
          by simp
      qed
    qed
  qed
qed

lemma geocodeAddress_cases:
  "geocodeAddress env a = (Inl ''URI malformed'', []) \<and> \<not> well_formed a
   \<or> (\<exists>coords. geocodeAddress env a = (Inr coords, [Geocode a]) \<and> well_formed a)"
  by (simp add: geocodeAddress_def split: geo_reply.splits list.splits)

lemma geocodeClients_Cons_log:
  "snd (geocodeClients env (c # clients) ([], []) []) =
     (case geocodeAddress env (fullAddress c) of
        (Inl msg, evs) \<Rightarrow> evs
      | (Inr None, evs) \<Rightarrow> evs @ Sleep 1000 # snd (geocodeClients env clients ([], []) [])
      | (Inr (Some (lat, lon)), evs) \<Rightarrow>
          (case dbUpdate env lat lon (ID c) of
             Inl msg \<Rightarrow> evs @ [Update lat lon (ID c)]
           | Inr u \<Rightarrow> evs @ Update lat lon (ID c) # Sleep 1000 # snd (geocodeClients env clients ([], []) [])))"
  by (simp add: geocodeClients_log [of env clients _ "_ @ _"] split: prod.splits sum.splits option.splits)

lemma gaps_after_batch:
  "gaps_after w (snd (geocodeClients env clients ([], []) [])) =
     (if filter is_geocode (snd (geocodeClients env clients ([], []) [])) = [] then []
      else w # replicate (length (filter is_geocode (snd (geocodeClients env clients ([], []) []))) - 1) 1000)"
proof (induction clients arbitrary: w)
  case Nil
  show ?case by simp
next
  case (Cons c clients)
  let ?T = "snd (geocodeClients env clients ([], []) [])"
  have tail: "gaps_after 1000 ?T = replicate (length (filter is_geocode ?T)) 1000"
    using Cons.IH [of 1000]
    by (cases "filter is_geocode ?T") (simp_all flip: replicate_Suc)
  from geocodeAddress_cases [of env "fullAddress c"]
  show ?case
  proof (elim disjE conjE exE)
    assume "geocodeAddress env (fullAddress c) = (Inl ''URI malformed'', [])"
    then show ?thesis unfolding geocodeClients_Cons_log by simp
  next
    fix coords
    assume g: "geocodeAddress env (fullAddress c) = (Inr coords, [Geocode (fullAddress c)])"
    show ?thesis
    proof (cases coords)
      case None
      with g tail show ?thesis unfolding geocodeClients_Cons_log by simp
    next
      case (Some m)
      obtain lat lon where m: "m = (lat, lon)" by (cases m)
      show ?thesis
      proof (cases "dbUpdate env lat lon (ID c)")
        case (Inl msg)
        with Some m g show ?thesis unfolding geocodeClients_Cons_log by simp
      next
        case (Inr u)
        with Some m g tail show ?thesis unfolding geocodeClients_Cons_log by simp
      qed
    qed
  qed
qed

lemma geocode_gaps_tl: "geocode_gaps evs = tl (gaps_after w evs)"
proof (induction evs arbitrary: w)
  case Nil
  show ?case by simp
next
  case (Cons e evs)
  then show ?case by (cases e) simp_all
qed

lemma populateCoordinates_delays:
  "geocode_gaps (snd (populateCoordinates env req)) =
     replicate (length (filter is_geocode (snd (populateCoordinates env req))) - 1) 1000"
proof (cases "selectMissing env")
  case (Inl msg)
  then show ?thesis by (simp add: populateCoordinates_def)
next
  case (Inr clients)
  show ?thesis
  proof (cases clients)
    case Nil
    with Inr show ?thesis by (simp add: populateCoordinates_def)
  next
    case (Cons c cs)
    let ?T = "snd (geocodeClients env clients ([], []) [])"
    have "snd (populateCoordinates env req) = SelectMissing # ?T"
      using Inr Cons geocodeClients_log [of env clients "([], [])" "[SelectMissing]"]
      by (cases "geocodeClients env clients ([], []) [SelectMissing]")
         (auto simp: populateCoordinates_def split: sum.splits)
    moreover have "geocode_gaps ?T = replicate (length (filter is_geocode ?T) - 1) 1000"
      using gaps_after_batch [of 0 env clients] by (simp add: geocode_gaps_tl [of _ 0])
    ultimately show ?thesis by simp
  qed
qed


text \<open>
  \<open>queryLLM\<close> awaits no timer at all: no delay is enforced between its geocoding calls.
\<close>

lemma llmChain_no_timer: "Sleep ms \<notin> set (snd (llmChain env context query))"
  by (auto simp: llmChain_def parserWithFix_def split: sum.splits prod.splits)

lemma resolveAddress_no_timer:
  "Sleep ms \<notin> set (fst (snd (resolveAddress env addresses rel)))
   \<and> Sleep ms \<notin> set (snd (snd (resolveAddress env addresses rel)))"
  by (auto simp: resolveAddress_def geocodeAddress_def
           split: option.splits prod.splits sum.splits geo_reply.splits list.splits if_splits)

lemma Promise_all_no_timer:
  "Sleep ms \<notin> set (snd (Promise_all (map (resolveAddress env addresses) rels)))"
  using resolveAddress_no_timer [of ms env addresses]
  by (auto simp: Promise_all_def)

lemma getRouteGeometry_no_timer: "Sleep ms \<notin> set (snd (getRouteGeometry env coordinates))"
  by (auto simp: getRouteGeometry_def split: route_reply.splits option.splits list.splits)

lemma processQuery_no_timer: "Sleep ms \<notin> set (snd (processQuery env query))"
proof -
  have a: "Sleep ms \<notin> set evs" if "llmChain env c q = (r, evs)" for c q r evs
    using llmChain_no_timer [of ms env c q] that by simp
  have b: "Sleep ms \<notin> set evs"
    if "Promise_all (map (resolveAddress env addresses) rels) = (r, evs)" for addresses rels r evs
    using Promise_all_no_timer [of ms env addresses rels] that by simp
  have c: "Sleep ms \<notin> set evs" if "getRouteGeometry env cs = (r, evs)" for cs r evs
    using getRouteGeometry_no_timer [of ms env cs] that by simp
  show ?thesis
    unfolding processQuery_def Let_def
    by (auto split: sum.splits prod.splits if_splits dest: a b c)
qed

lemma queryLLM_no_timer: "Sleep ms \<notin> set (snd (queryLLM env req))"
  using processQuery_no_timer [of ms env "queryOf req"]
  by (auto simp: queryLLM_def Let_def split: sum.splits prod.splits)

lemma gaps_after_no_timer:
  "\<forall>ms. Sleep ms \<notin> set evs \<Longrightarrow> set (gaps_after w evs) \<subseteq> {w, 0}"
proof (induction evs arbitrary: w)
  case Nil
  show ?case by simp
next
  case (Cons e evs)
  then have rest: "\<forall>ms. Sleep ms \<notin> set evs" by simp
  show ?case
  proof (cases e)
    case (Geocode a)
    with Cons.IH [OF rest, of 0] show ?thesis by auto
  next
    case (Sleep ms)
    with Cons.prems show ?thesis by auto
  qed (use Cons.IH [OF rest, of w] in simp_all)
qed

lemma queryLLM_no_delay: "set (geocode_gaps (snd (queryLLM env req))) \<subseteq> {0}"
proof -
  have "\<forall>ms. Sleep ms \<notin> set (snd (queryLLM env req))" by (simp add: queryLLM_no_timer)
  from gaps_after_no_timer [OF this, of 0] have "set (gaps_after 0 (snd (queryLLM env req))) \<subseteq> {0}"
    by simp
  moreover have "set (tl xs) \<subseteq> set xs" for xs :: "nat list" by (cases xs) auto
  ultimately show ?thesis
    unfolding geocode_gaps_tl [of _ 0] by blast
qed

text \<open>
  C2. The claim: in every resolution batch the geocoding calls are strictly sequential,
  at least one time unit apart. The code of \<open>queryLLM\<close>, for a generation result that
  names two clients without coordinates: both geocoding requests are issued one after
  the other with no timer between them.
\<close>

theorem queryLLM_geocodes_without_delay:
  "snd (queryLLM world (Request (Some ''23''))) =
     [VectorSearch (QString ''23''),
      Generate (Prompt ''Address Record: {ID: 1, City: N/A}'' (QString ''23'')),
      SelectByIds [''2'', ''3''], Geocode ''B, 1 X, P'', Geocode ''C, 1 X, P'',
      Update (Num 41) (Num (- 8)) ''2'', Update (Num 40) (Num (- 8)) ''3'',
      Route [(Num 41, Num (- 8)), (Num 40, Num (- 8))]]
   \<and> geocode_gaps (snd (queryLLM world (Request (Some ''23'')))) = [0]"
  by code_simp



section \<open>Application-side ranking\<close>
















end
